theory Spec2Isabelle
  imports Complex_Main "HOL-Library.Log_Nat"
begin

section \<open>Python values used by the subtitle generator\<close>

text \<open>
  A Python \<^verbatim>\<open>str\<close> is a sequence of Unicode code points, so it is modelled as a list of
  natural numbers.  ASCII literals of the source are written with \<open>ascii\<close>; the Japanese
  literals are given by their code points.
\<close>

type_synonym ustring = "nat list"

definition ascii :: "string \<Rightarrow> ustring" where
  "ascii s = map of_char s"

text \<open>The code points for which \<^verbatim>\<open>str.isspace\<close> holds; \<^verbatim>\<open>str.strip()\<close> removes exactly these.\<close>

definition isspace :: "nat \<Rightarrow> bool" where
  "isspace c \<longleftrightarrow>
     (9 \<le> c \<and> c \<le> 13) \<or> (28 \<le> c \<and> c \<le> 32) \<or> c = 133 \<or> c = 160 \<or> c = 5760 \<or>
     (8192 \<le> c \<and> c \<le> 8202) \<or> c = 8232 \<or> c = 8233 \<or> c = 8239 \<or> c = 8287 \<or> c = 12288"

definition strip :: "ustring \<Rightarrow> ustring" where
  "strip s = rev (dropWhile isspace (rev (dropWhile isspace s)))"

text \<open>An exception instance; only \<^verbatim>\<open>str(e)\<close> is ever observed by the program.\<close>

datatype pyexn = PyExn (exn_str: ustring)

text \<open>
  A Python number is an \<^verbatim>\<open>int\<close> (unbounded) or a finite \<^verbatim>\<open>float\<close>, the latter given by
  the rational number it denotes.
\<close>

datatype pynum = PInt int | PFloat rat

text \<open>\<^verbatim>\<open>d.get(key, default)\<close> on a dictionary whose key may be absent.\<close>

definition dict_get :: "'a option \<Rightarrow> 'a \<Rightarrow> 'a" where
  "dict_get entry dflt = (case entry of None \<Rightarrow> dflt | Some v \<Rightarrow> v)"

section \<open>String literals of the source\<close>

definition MSG_NO_API_KEY :: ustring where
  "MSG_NO_API_KEY = [79, 112, 101, 110, 65, 73, 32, 65, 80, 73, 12461, 12540, 12364, 35373,
     23450, 12373, 12428, 12390, 12356, 12414, 12379, 12435]"

definition LABEL_TRANSLATE_ERROR :: ustring where
  "LABEL_TRANSLATE_ERROR = [32763, 35379, 12456, 12521, 12540, 58, 32]"

definition SUBTITLE_PROMPT :: ustring where
  "SUBTITLE_PROMPT = [12354, 12394, 12383, 12399, 26144, 20687, 23383, 24149, 12398, 23554,
     38272, 32763, 35379, 32773, 12391, 12377, 12290, 20197, 19979, 12398, 33521, 35486, 12486,
     12461, 12473, 12488, 12434, 33258, 28982, 12391, 35501, 12415, 12420, 12377, 12356, 26085,
     26412, 35486, 23383, 24149, 12395, 32763, 35379, 12375, 12390, 12367, 12384, 12373, 12356,
     12290, 10, 10, 32763, 35379, 12398, 38555, 12398, 27880, 24847, 20107, 38917, 65306, 10, 45,
     32, 23383, 24149, 12392, 12375, 12390, 35501, 12415, 12420, 12377, 12356, 33258, 28982,
     12394, 26085, 26412, 35486, 12395, 12377, 12427, 10, 45, 32, 25991, 33032, 12434, 32771,
     24942, 12375, 12289, 26144, 20687, 12395, 21512, 12358, 34920, 29694, 12434, 20351, 12358,
     10, 45, 32, 25964, 35486, 12399, 25991, 33032, 12395, 24540, 12376, 12390, 36969, 20999,
     12395, 20351, 29992, 10, 45, 32, 23554, 38272, 29992, 35486, 12399, 26085, 26412, 35486,
     12391, 19968, 33324, 30340, 12394, 34920, 29694, 12434, 20351, 29992, 10, 45, 32, 38263,
     12377, 12366, 12427, 25991, 12399, 36969, 20999, 12395, 20998, 21106, 12377, 12427, 10]"

definition GENERIC_PROMPT :: ustring where
  "GENERIC_PROMPT = [20197, 19979, 12398, 33521, 35486, 12486, 12461, 12473, 12488, 12434,
     33258, 28982, 12394, 26085, 26412, 35486, 12395, 32763, 35379, 12375, 12390, 12367, 12384,
     12373, 12356, 12290]"

section \<open>The remote services\<close>

text \<open>
  The OpenAI client is a collaborator whose behaviour is a parameter: each call takes the
  request and the state \<open>'n\<close> of the network side and returns either an exception or a
  response, with the new state.  Every call the program issues is appended to \<open>sent\<close>.
\<close>

record chat_request =
  chat_model :: ustring
  messages :: "(ustring \<times> ustring) list"
  temperature :: rat

text \<open>
  A chat response, as far as \<^verbatim>\<open>response.choices[0].message.content\<close> reads it: one entry per
  choice, \<open>None\<close> when the content is \<^verbatim>\<open>None\<close>.
\<close>

type_synonym chat_response = "ustring option list"

text \<open>
  A transcription request, together with the position of the file object when it is handed
  to the client.
\<close>

record transcription_request =
  tr_model :: ustring
  tr_file_pos :: nat
  tr_language :: ustring
  tr_response_format :: ustring
  tr_timestamp_granularities :: "ustring list option"

record raw_segment =
  raw_start :: "pynum option"
  raw_end :: "pynum option"
  raw_text :: "ustring option"

text \<open>
  The object returned by the transcription call: the name of its class and its attributes,
  \<open>None\<close> for an attribute the object does not have.
\<close>

record transcript =
  t_class :: ustring
  t_text :: "ustring option"
  t_language :: "ustring option"
  t_duration :: "pynum option"
  t_segments :: "raw_segment list option"

datatype api_call = ChatCall chat_request | TranscribeCall transcription_request

text \<open>
  The transcription call also reads the file object; the position it leaves the file at
  is part of its outcome.
\<close>

record 'n openai_client =
  chat_completions_create :: "chat_request \<Rightarrow> 'n \<Rightarrow> (pyexn + chat_response) \<times> 'n"
  audio_transcriptions_create ::
    "transcription_request \<Rightarrow> 'n \<Rightarrow> ((pyexn + transcript) \<times> nat) \<times> 'n"

record 'n world =
  net :: 'n
  sent :: "api_call list"

record 'n EnglishToJapaneseSubtitle =
  client :: "'n openai_client option"

definition call_chat ::
  "'n openai_client \<Rightarrow> chat_request \<Rightarrow> 'n world \<Rightarrow> (pyexn + chat_response) \<times> 'n world" where
  "call_chat c req w =
     (case chat_completions_create c req (net w) of
        (r, n') \<Rightarrow> (r, w\<lparr>net := n', sent := sent w @ [ChatCall req]\<rparr>))"

section \<open>Translation\<close>

definition translation_request :: "ustring \<Rightarrow> ustring \<Rightarrow> chat_request" where
  "translation_request english_text context =
     \<lparr>chat_model = ascii ''gpt-4'',
      messages = [(ascii ''system'',
                   if context = ascii ''subtitle'' then SUBTITLE_PROMPT else GENERIC_PROMPT),
                  (ascii ''user'', english_text)],
      temperature = 3 / 10\<rparr>"

text \<open>
  The body of the \<^verbatim>\<open>try\<close> block of \<^verbatim>\<open>translate_to_japanese\<close>: the remote call may raise,
  \<^verbatim>\<open>choices[0]\<close> raises \<^verbatim>\<open>IndexError\<close> on an empty list, and \<^verbatim>\<open>.strip()\<close> raises
  \<^verbatim>\<open>AttributeError\<close> on \<^verbatim>\<open>None\<close>.
\<close>

definition translate_try ::
  "'n openai_client \<Rightarrow> ustring \<Rightarrow> ustring \<Rightarrow> 'n world \<Rightarrow> (pyexn + ustring) \<times> 'n world" where
  "translate_try c english_text context w =
     (case call_chat c (translation_request english_text context) w of
        (Inl e, w') \<Rightarrow> (Inl e, w')
      | (Inr response, w') \<Rightarrow>
          (case response of
             [] \<Rightarrow> (Inl (PyExn (ascii ''list index out of range'')), w')
           | None # _ \<Rightarrow>
               (Inl (PyExn (ascii [CHR 0x27] @ ascii ''NoneType'' @ ascii [CHR 0x27] @
                     ascii '' object has no attribute '' @ ascii [CHR 0x27] @ ascii ''strip'' @
                     ascii [CHR 0x27])), w')
           | Some content # _ \<Rightarrow> (Inr (strip content), w')))"

definition translate_to_japanese ::
  "'n EnglishToJapaneseSubtitle \<Rightarrow> ustring \<Rightarrow> ustring \<Rightarrow> 'n world
     \<Rightarrow> (pyexn + ustring) \<times> 'n world" where
  "translate_to_japanese self english_text context w =
     (case client self of
        None \<Rightarrow> (Inr MSG_NO_API_KEY, w)
      | Some c \<Rightarrow>
          (case translate_try c english_text context w of
             (Inl e, w') \<Rightarrow> (Inr (LABEL_TRANSLATE_ERROR @ exn_str e), w')
           | (Inr japanese, w') \<Rightarrow> (Inr japanese, w')))"

section \<open>Building the subtitle segments\<close>

record transcription_result =
  res_text :: "ustring option"
  res_language :: "ustring option"
  res_duration :: "pynum option"
  res_segments :: "raw_segment list option"

record subtitle_segment =
  seg_start :: pynum
  seg_end :: pynum
  english :: ustring
  japanese :: ustring

text \<open>The \<^verbatim>\<open>for segment in segments\<close> loop, with \<open>subtitle_segments\<close> as the accumulator.\<close>

fun segments_loop ::
  "'n EnglishToJapaneseSubtitle \<Rightarrow> raw_segment list \<Rightarrow> subtitle_segment list \<Rightarrow> 'n world
     \<Rightarrow> (pyexn + subtitle_segment list) \<times> 'n world" where
  "segments_loop self [] subtitle_segments w = (Inr subtitle_segments, w)"
| "segments_loop self (segment # rest) subtitle_segments w =
     (let english_text = strip (dict_get (raw_text segment) [])
      in if english_text \<noteq> [] then
           (case translate_to_japanese self english_text (ascii ''subtitle'') w of
              (Inl e, w') \<Rightarrow> (Inl e, w')
            | (Inr japanese_text, w') \<Rightarrow>
                segments_loop self rest
                  (subtitle_segments @
                     [\<lparr>seg_start = dict_get (raw_start segment) (PInt 0),
                       seg_end = dict_get (raw_end segment) (PInt 0),
                       english = english_text,
                       japanese = japanese_text\<rparr>]) w')
         else segments_loop self rest subtitle_segments w)"

text \<open>
  The argument is either the error string of the transcription step or its result
  dictionary; the value returned is again a string or the list of segments.
\<close>

definition create_subtitle_segments ::
  "'n EnglishToJapaneseSubtitle \<Rightarrow> ustring + transcription_result \<Rightarrow> 'n world
     \<Rightarrow> (pyexn + (ustring + subtitle_segment list)) \<times> 'n world" where
  "create_subtitle_segments self transcription_result w =
     (case transcription_result of
        Inl message \<Rightarrow> (Inr (Inl message), w)
      | Inr result \<Rightarrow>
          (let segments = dict_get (res_segments result) []
           in if segments = [] then
                (let english_text = dict_get (res_text result) []
                 in case translate_to_japanese self english_text (ascii ''subtitle'') w of
                      (Inl e, w') \<Rightarrow> (Inl e, w')
                    | (Inr japanese_text, w') \<Rightarrow>
                        (Inr (Inr [\<lparr>seg_start = PInt 0,
                                    seg_end = dict_get (res_duration result) (PInt 0),
                                    english = english_text,
                                    japanese = japanese_text\<rparr>]), w'))
              else
                (case segments_loop self segments [] w of
                   (Inl e, w') \<Rightarrow> (Inl e, w')
                 | (Inr subtitle_segments, w') \<Rightarrow> (Inr (Inr subtitle_segments), w'))))"

section \<open>Python arithmetic on floats\<close>

text \<open>
  A finite \<^verbatim>\<open>float\<close> is an IEEE 754 binary64 number.  \<open>fl\<close> rounds a rational to the nearest
  such number, ties to the even significand: 53 significant bits, the exponent of the last
  bit at least \<open>-1074\<close>.  Overflow to infinity is not modelled; the values handled here stay
  far below \<open>2 ^ 1024\<close>.
\<close>

definition round_half_even :: "rat \<Rightarrow> int" where
  "round_half_even x =
     (let f = \<lfloor>x\<rfloor>; d = x - of_int f
      in if d < 1 / 2 then f else if 1 / 2 < d then f + 1 else if even f then f else f + 1)"

text \<open>The position of the leading bit: \<open>2 powi ilog2 x \<le> x < 2 powi (ilog2 x + 1)\<close> for \<open>0 < x\<close>.\<close>

definition ilog2 :: "rat \<Rightarrow> int" where
  "ilog2 x = (if 1 \<le> x then bitlen \<lfloor>x\<rfloor> - 1 else - bitlen (\<lceil>1 / x\<rceil> - 1))"

definition ulp :: "rat \<Rightarrow> rat" where
  "ulp x = 2 powi (max (ilog2 \<bar>x\<bar> - 52) (- 1074))"

definition fl :: "rat \<Rightarrow> rat" where
  "fl x = (if x = 0 then 0 else of_int (round_half_even (x / ulp x)) * ulp x)"










section \<open>Formatting integers\<close>

fun digits10 :: "nat \<Rightarrow> ustring" where
  "digits10 n = (if n < 10 then [48 + n] else digits10 (n div 10) @ [48 + n mod 10])"

declare digits10.simps [simp del]

text \<open>\<^verbatim>\<open>str(n)\<close> and the format specification \<^verbatim>\<open>0wd\<close> (sign first, then zeros up to width \<open>w\<close>).\<close>

definition str_int :: "int \<Rightarrow> ustring" where
  "str_int n = (if n < 0 then 45 # digits10 (nat (- n)) else digits10 (nat n))"


section \<open>Timestamps\<close>





section \<open>The SRT renderer\<close>



section \<open>Vocabulary of the statements\<close>














section \<open>Validation and transcription\<close>

definition LABEL_TRANSCRIBE_ERROR :: ustring where
  "LABEL_TRANSCRIBE_ERROR = [33521, 35486, 38899, 22768, 35469, 35672, 12456, 12521, 12540, 58, 32]"

definition MSG_WAV_ONLY :: ustring where
  "MSG_WAV_ONLY = [87, 65, 86, 12501, 12449, 12452, 12523, 12398, 12415, 23550, 24540, 12375,
     12390, 12356, 12414, 12377, 12290, 20182, 12398, 24418, 24335, 12399, 20107, 21069, 12395,
     87, 65, 86, 12395, 22793, 25563, 12375, 12390, 12367, 12384, 12373, 12356, 12290]"

definition MSG_WAV_VALID :: ustring where
  "MSG_WAV_VALID = [87, 65, 86, 12501, 12449, 12452, 12523, 12399, 26377, 21177, 12391, 12377]"

definition LABEL_WAV_READ_ERROR :: ustring where
  "LABEL_WAV_READ_ERROR = [87, 65, 86, 12501, 12449, 12452, 12523, 12398, 35501, 12415, 36796,
     12415, 12456, 12521, 12540, 58, 32]"

definition MSG_TOO_LARGE_PRE :: ustring where
  "MSG_TOO_LARGE_PRE = [12501, 12449, 12452, 12523, 12469, 12452, 12474, 12364, 22823, 12365,
     12377, 12366, 12414, 12377, 58, 32]"

definition MSG_TOO_LARGE_POST :: ustring where
  "MSG_TOO_LARGE_POST = [77, 66, 65288, 19978, 38480, 58, 32, 50, 53, 77, 66, 65289]"

definition LABEL_PROCESS_ERROR :: ustring where
  "LABEL_PROCESS_ERROR = [20966, 29702, 12456, 12521, 12540, 58, 32]"

definition PROGRESS_CHECKING :: ustring where
  "PROGRESS_CHECKING = [87, 65, 86, 12501, 12449, 12452, 12523, 12434, 30906, 35469, 20013, 46,
     46, 46]"

definition PROGRESS_RECOGNIZING :: ustring where
  "PROGRESS_RECOGNIZING = [33521, 35486, 38899, 22768, 12434, 35469, 35672, 20013, 46, 46, 46]"

definition PROGRESS_TRANSLATING :: ustring where
  "PROGRESS_TRANSLATING = [26085, 26412, 35486, 12395, 32763, 35379, 20013, 46, 46, 46]"

definition PROGRESS_DONE :: ustring where
  "PROGRESS_DONE = [23436, 20102, 65281]"

text \<open>
  The file system as the program reads it: \<^verbatim>\<open>wave.open\<close> with the four header values it
  reports, \<^verbatim>\<open>os.path.getsize\<close>, and \<^verbatim>\<open>open(path, "rb")\<close>, which yields the length of the
  file.  Each may raise.  The program never writes, so the file system is a parameter.
\<close>

record wav_params =
  nchannels :: nat
  sampwidth :: nat
  framerate :: nat
  nframes :: nat

record filesystem =
  wave_open :: "ustring \<Rightarrow> pyexn + wav_params"
  getsize :: "ustring \<Rightarrow> pyexn + nat"
  open_rb :: "ustring \<Rightarrow> pyexn + nat"

text \<open>The format specification \<^verbatim>\<open>.1f\<close> for a float that is not negative.\<close>

definition format_f1 :: "rat \<Rightarrow> ustring" where
  "format_f1 x =
     (let t = round_half_even (x * 10)
      in str_int (t div 10) @ [46] @ digits10 (nat (t mod 10)))"

text \<open>
  The \<^verbatim>\<open>try\<close> block of \<open>validate_wav_file\<close>.  The header is read, the duration
  \<^verbatim>\<open>frames / float(framerate)\<close> raises \<^verbatim>\<open>ZeroDivisionError\<close> for a frame rate of zero, and the
  size is compared with 25 MiB.  What is printed is not modelled.
\<close>

definition validate_try :: "filesystem \<Rightarrow> ustring \<Rightarrow> pyexn + bool \<times> ustring" where
  "validate_try fs wav_file =
     (case wave_open fs wav_file of
        Inl e \<Rightarrow> Inl e
      | Inr wav \<Rightarrow>
          if framerate wav = 0 then Inl (PyExn (ascii ''float division by zero''))
          else
            (case getsize fs wav_file of
               Inl e \<Rightarrow> Inl e
             | Inr file_size \<Rightarrow>
                 if file_size > 25 * 1024 * 1024 then
                   Inr (False, MSG_TOO_LARGE_PRE @
                          format_f1 (fl (of_nat file_size / of_nat (1024 * 1024))) @
                          MSG_TOO_LARGE_POST)
                 else Inr (True, MSG_WAV_VALID)))"

definition validate_wav_file :: "filesystem \<Rightarrow> ustring \<Rightarrow> bool \<times> ustring" where
  "validate_wav_file fs wav_file =
     (case validate_try fs wav_file of
        Inl e \<Rightarrow> (False, LABEL_WAV_READ_ERROR @ exn_str e)
      | Inr r \<Rightarrow> r)"

definition transcription_request :: "nat \<Rightarrow> ustring list option \<Rightarrow> transcription_request" where
  "transcription_request pos granularities =
     \<lparr>tr_model = ascii ''whisper-1'', tr_file_pos = pos, tr_language = ascii ''en'',
      tr_response_format = ascii ''verbose_json'',
      tr_timestamp_granularities = granularities\<rparr>"

definition call_transcribe ::
  "'n openai_client \<Rightarrow> transcription_request \<Rightarrow> 'n world
     \<Rightarrow> ((pyexn + transcript) \<times> nat) \<times> 'n world" where
  "call_transcribe c req w =
     (case audio_transcriptions_create c req (net w) of
        (r, n') \<Rightarrow> (r, w\<lparr>net := n', sent := sent w @ [TranscribeCall req]\<rparr>))"

definition attribute_error :: "ustring \<Rightarrow> string \<Rightarrow> pyexn" where
  "attribute_error cls name =
     PyExn (ascii [CHR 0x27] @ cls @ ascii [CHR 0x27] @ ascii '' object has no attribute '' @
            ascii [CHR 0x27] @ ascii name @ ascii [CHR 0x27])"

text \<open>The result dictionary; reading an attribute the transcript lacks raises.\<close>

definition result_of_transcript :: "transcript \<Rightarrow> pyexn + transcription_result" where
  "result_of_transcript t =
     (case t_text t of
        None \<Rightarrow> Inl (attribute_error (t_class t) ''text'')
      | Some text \<Rightarrow>
          (case t_language t of
             None \<Rightarrow> Inl (attribute_error (t_class t) ''language'')
           | Some language \<Rightarrow>
               (case t_duration t of
                  None \<Rightarrow> Inl (attribute_error (t_class t) ''duration'')
                | Some duration \<Rightarrow>
                    Inr \<lparr>res_text = Some text, res_language = Some language,
                         res_duration = Some duration,
                         res_segments = Some (case t_segments t of None \<Rightarrow> [] | Some s \<Rightarrow> s)\<rparr>)))"

text \<open>\<^verbatim>\<open>audio.seek(offset)\<close> on a file object at position \<open>pos\<close>: the new position.\<close>

definition seek :: "nat \<Rightarrow> nat \<Rightarrow> nat" where
  "seek offset pos = offset"

text \<open>
  The outer \<^verbatim>\<open>try\<close> block of \<open>transcribe_english_with_timestamps\<close>: the file is opened (at
  position \<open>0\<close>), the request with \<^verbatim>\<open>timestamp_granularities\<close> is sent, and if that raises the
  file is rewound from wherever the failed call left it and the request is sent again
  without the parameter.
\<close>

definition transcribe_try ::
  "'n openai_client \<Rightarrow> filesystem \<Rightarrow> ustring \<Rightarrow> 'n world
     \<Rightarrow> (pyexn + transcription_result) \<times> 'n world" where
  "transcribe_try c fs audio_file w =
     (case open_rb fs audio_file of
        Inl e \<Rightarrow> (Inl e, w)
      | Inr audio \<Rightarrow>
          (case call_transcribe c (transcription_request 0 (Some [ascii ''segment''])) w of
             ((Inr transcript, pos), w1) \<Rightarrow> (result_of_transcript transcript, w1)
           | ((Inl new_api_error, pos), w1) \<Rightarrow>
               (case call_transcribe c (transcription_request (seek 0 pos) None) w1 of
                  ((Inl e, pos'), w2) \<Rightarrow> (Inl e, w2)
                | ((Inr transcript, pos'), w2) \<Rightarrow> (result_of_transcript transcript, w2))))"

definition transcribe_english_with_timestamps ::
  "'n EnglishToJapaneseSubtitle \<Rightarrow> filesystem \<Rightarrow> ustring \<Rightarrow> 'n world
     \<Rightarrow> (pyexn + (ustring + transcription_result)) \<times> 'n world" where
  "transcribe_english_with_timestamps self fs audio_file w =
     (case client self of
        None \<Rightarrow> (Inr (Inl MSG_NO_API_KEY), w)
      | Some c \<Rightarrow>
          (case validate_wav_file fs audio_file of
             (is_valid, message) \<Rightarrow>
               if \<not> is_valid then (Inr (Inl message), w)
               else
                 (case transcribe_try c fs audio_file w of
                    (Inl e, w') \<Rightarrow> (Inr (Inl (LABEL_TRANSCRIBE_ERROR @ exn_str e)), w')
                  | (Inr result, w') \<Rightarrow> (Inr (Inr result), w'))))"

section \<open>Processing one file\<close>

text \<open>\<^verbatim>\<open>file_path.lower().endswith('.wav')\<close>: no other code point is lowered to one of these.\<close>

definition endswith_wav :: "ustring \<Rightarrow> bool" where
  "endswith_wav file_path \<longleftrightarrow>
     4 \<le> length file_path \<and>
     (case drop (length file_path - 4) file_path of
        [d, w, a, v] \<Rightarrow> d = 46 \<and> (w = 119 \<or> w = 87) \<and> (a = 97 \<or> a = 65) \<and> (v = 118 \<or> v = 86)
      | _ \<Rightarrow> False)"

record process_result =
  segments :: "ustring + subtitle_segment list"
  original_text :: ustring
  duration :: pynum

text \<open>
  The progress callback is optional; a call of it returns or raises, and what it does to
  the user interface is not modelled.
\<close>

type_synonym progress_callback = "(ustring \<Rightarrow> pyexn option) option"

definition report :: "progress_callback \<Rightarrow> ustring \<Rightarrow> pyexn option" where
  "report progress_callback message =
     (case progress_callback of None \<Rightarrow> None | Some f \<Rightarrow> f message)"

definition process_try ::
  "'n EnglishToJapaneseSubtitle \<Rightarrow> filesystem \<Rightarrow> ustring \<Rightarrow> progress_callback \<Rightarrow> 'n world
     \<Rightarrow> (pyexn + (ustring + process_result)) \<times> 'n world" where
  "process_try self fs file_path progress_callback w =
     (case report progress_callback PROGRESS_CHECKING of
        Some e \<Rightarrow> (Inl e, w)
      | None \<Rightarrow>
          if \<not> endswith_wav file_path then (Inr (Inl MSG_WAV_ONLY), w)
          else
            (case report progress_callback PROGRESS_RECOGNIZING of
               Some e \<Rightarrow> (Inl e, w)
             | None \<Rightarrow>
                 (case transcribe_english_with_timestamps self fs file_path w of
                    (Inl e, w1) \<Rightarrow> (Inl e, w1)
                  | (Inr (Inl message), w1) \<Rightarrow> (Inr (Inl message), w1)
                  | (Inr (Inr transcription_result), w1) \<Rightarrow>
                      (case report progress_callback PROGRESS_TRANSLATING of
                         Some e \<Rightarrow> (Inl e, w1)
                       | None \<Rightarrow>
                           (case create_subtitle_segments self (Inr transcription_result) w1 of
                              (Inl e, w2) \<Rightarrow> (Inl e, w2)
                            | (Inr subtitle_segments, w2) \<Rightarrow>
                                (case report progress_callback PROGRESS_DONE of
                                   Some e \<Rightarrow> (Inl e, w2)
                                 | None \<Rightarrow>
                                     (Inr (Inr \<lparr>segments = subtitle_segments,
                                        original_text =
                                          dict_get (res_text transcription_result) [],
                                        duration =
                                          dict_get (res_duration transcription_result)
                                            (PInt 0)\<rparr>), w2)))))))"

definition process_wav_file ::
  "'n EnglishToJapaneseSubtitle \<Rightarrow> filesystem \<Rightarrow> ustring \<Rightarrow> progress_callback \<Rightarrow> 'n world
     \<Rightarrow> (pyexn + (ustring + process_result)) \<times> 'n world" where
  "process_wav_file self fs file_path progress_callback w =
     (case process_try self fs file_path progress_callback w of
        (Inl e, w') \<Rightarrow> (Inr (Inl (LABEL_PROCESS_ERROR @ exn_str e)), w')
      | (Inr r, w') \<Rightarrow> (Inr r, w'))"

section \<open>Concrete inputs used to exercise the theorems\<close>

definition demo_transcript :: transcript where
  "demo_transcript =
     \<lparr>t_class = ascii ''TranscriptionVerbose'', t_text = Some (ascii ''Hi Bye''),
      t_language = Some (ascii ''english''), t_duration = Some (PFloat 6),
      t_segments = None\<rparr>"

text \<open>
  A client that fails to translate \<open>Bye\<close>, rejects the \<^verbatim>\<open>timestamp_granularities\<close>
  parameter after reading the file, and counts the calls it receives.
\<close>

definition demo_client :: "nat openai_client" where
  "demo_client =
     \<lparr>chat_completions_create = (\<lambda>req n.
        (if map snd (messages req) = [SUBTITLE_PROMPT, ascii ''Bye'']
         then Inl (PyExn (ascii ''timeout''))
         else Inr [Some (ascii '' ja '')], Suc n)),
      audio_transcriptions_create = (\<lambda>req n.
        ((if tr_timestamp_granularities req = None then Inr demo_transcript
          else Inl (PyExn (ascii ''unexpected keyword'')), 44), Suc n))\<rparr>"

definition demo_self :: "nat EnglishToJapaneseSubtitle" where
  "demo_self = \<lparr>client = Some demo_client\<rparr>"

definition demo_world :: "nat world" where
  "demo_world = \<lparr>net = 0, sent = []\<rparr>"

definition demo_result :: transcription_result where
  "demo_result =
     \<lparr>res_text = Some (ascii ''Hi Bye''), res_language = Some (ascii ''english''),
      res_duration = Some (PInt 6),
      res_segments = Some
        [\<lparr>raw_start = Some (PInt 0), raw_end = Some (PInt 2), raw_text = Some (ascii ''Hi'')\<rparr>,
         \<lparr>raw_start = Some (PInt 2), raw_end = Some (PInt 4), raw_text = Some (ascii ''  '')\<rparr>,
         \<lparr>raw_start = Some (PInt 4), raw_end = Some (PInt 6), raw_text = Some (ascii ''Bye'')\<rparr>]\<rparr>"

definition hello_result :: transcription_result where
  "hello_result =
     \<lparr>res_text = Some (ascii ''Hello''), res_language = Some (ascii ''english''),
      res_duration = Some (PFloat (25 / 2)), res_segments = Some []\<rparr>"

definition blank_result :: transcription_result where
  "blank_result =
     \<lparr>res_text = Some (ascii ''  ''), res_language = None, res_duration = None,
      res_segments = None\<rparr>"

definition again_segment :: raw_segment where
  "again_segment =
     \<lparr>raw_start = None, raw_end = Some (PFloat (7 / 2)), raw_text = Some (ascii '' Again '')\<rparr>"

definition hi_segment :: raw_segment where
  "hi_segment =
     \<lparr>raw_start = Some (PInt 0), raw_end = Some (PInt 2), raw_text = Some (ascii ''Hi'')\<rparr>"

definition bye_segment :: raw_segment where
  "bye_segment =
     \<lparr>raw_start = Some (PInt 4), raw_end = Some (PInt 6), raw_text = Some (ascii ''Bye'')\<rparr>"

definition segments_result :: "raw_segment list \<Rightarrow> transcription_result" where
  "segments_result segs =
     \<lparr>res_text = Some [], res_language = Some (ascii ''english''), res_duration = Some (PInt 6),
      res_segments = Some segs\<rparr>"

definition demo_fs :: filesystem where
  "demo_fs =
     \<lparr>wave_open = (\<lambda>path. Inr \<lparr>nchannels = 1, sampwidth = 2, framerate = 16000, nframes = 96000\<rparr>),
      getsize = (\<lambda>path. Inr 192044),
      open_rb = (\<lambda>path. Inr 192044)\<rparr>"


section \<open>Evaluating the arithmetic on literals\<close>

lemma floor_rat_numeral [simp]:
  "\<lfloor>numeral a / numeral b :: rat\<rfloor> = numeral a div numeral b"
  by (metis floor_divide_of_int_eq of_int_numeral)

lemma floor_rat_neg_numeral [simp]:
  "\<lfloor>- (numeral a / numeral b) :: rat\<rfloor> = - numeral a div numeral b"
  by (metis divide_minus_left floor_divide_of_int_eq of_int_neg_numeral of_int_numeral)

lemma ceiling_rat_numeral [simp]:
  "\<lceil>numeral a / numeral b :: rat\<rceil> = - (- numeral a div numeral b)"
  by (metis ceiling_def floor_divide_of_int_eq minus_divide_left of_int_minus of_int_numeral)

lemma ceiling_rat_neg_numeral [simp]:
  "\<lceil>- (numeral a / numeral b) :: rat\<rceil> = - (numeral a div numeral b)"
  by (metis ceiling_def floor_divide_of_int_eq minus_divide_left of_int_minus of_int_numeral
      minus_minus)

lemma floor_rat_one_numeral [simp]: "\<lfloor>1 / numeral b :: rat\<rfloor> = 1 div numeral b"
  by (metis floor_divide_of_int_eq of_int_1 of_int_numeral)

lemma floor_rat_neg_one_numeral [simp]: "\<lfloor>- (1 / numeral b) :: rat\<rfloor> = - 1 div numeral b"
  by (metis divide_minus_left floor_divide_of_int_eq of_int_1 of_int_minus of_int_numeral)

lemma ceiling_rat_one_numeral [simp]: "\<lceil>1 / numeral b :: rat\<rceil> = - (- 1 div numeral b)"
  by (metis ceiling_def floor_divide_of_int_eq minus_divide_left of_int_minus of_int_numeral
      of_int_1)

lemma ceiling_rat_neg_one_numeral [simp]: "\<lceil>- (1 / numeral b) :: rat\<rceil> = - (1 div numeral b)"
  by (metis ceiling_def floor_divide_of_int_eq of_int_numeral of_int_1 minus_minus)

lemma floor_ceiling_rat_neg_one [simp]: "\<lfloor>- 1 :: rat\<rfloor> = - 1" "\<lceil>- 1 :: rat\<rceil> = - 1"
  by (metis floor_of_int of_int_1 of_int_minus, metis ceiling_of_int of_int_1 of_int_minus)

lemma replicate_numeral_eval [simp]:
  "replicate (numeral k) x = x # replicate (pred_numeral k) x"
  by (simp add: numeral_eq_Suc)






section \<open>Rounding, floats and digit strings\<close>













lemma ulp_nonzero [simp]: "ulp x \<noteq> 0"
  by (simp add: ulp_def)















lemma digits10_length_pos: "0 < length (digits10 n)"
  by (subst digits10.simps) simp









section \<open>The SRT formatter on floats\<close>

lemma fl_zero [simp]: "fl 0 = 0"
  by (simp add: fl_def)































section \<open>Properties of translation and segment building\<close>

lemma translate_to_japanese_returns:
  "\<exists>s w'. translate_to_japanese self t c w = (Inr s, w')"
  by (auto simp: translate_to_japanese_def split: option.splits prod.splits sum.splits)

lemma segments_loop_append:
  "segments_loop self (xs @ ys) acc w =
     (case segments_loop self xs acc w of
        (Inl e, w') \<Rightarrow> (Inl e, w')
      | (Inr out, w') \<Rightarrow> segments_loop self ys out w')"
  by (induction xs arbitrary: acc w) (auto simp: Let_def split: prod.splits sum.splits)

lemma segments_loop_shape:
  "\<exists>out w'. segments_loop self segs acc w = (Inr (acc @ out), w') \<and>
     map (\<lambda>s. (seg_start s, seg_end s, english s)) out =
     map (\<lambda>r. (dict_get (raw_start r) (PInt 0), dict_get (raw_end r) (PInt 0),
                strip (dict_get (raw_text r) [])))
       (filter (\<lambda>r. strip (dict_get (raw_text r) []) \<noteq> []) segs)"
proof (induction segs arbitrary: acc w)
  case Nil
  show ?case by simp
next
  case (Cons r rest)
  show ?case
  proof (cases "strip (dict_get (raw_text r) []) = []")
    case True
    then show ?thesis using Cons.IH [of acc w] by simp
  next
    case False
    obtain j w1 where j: "translate_to_japanese self (strip (dict_get (raw_text r) []))
        (ascii ''subtitle'') w = (Inr j, w1)"
      using translate_to_japanese_returns by blast
    let ?seg = "\<lparr>seg_start = dict_get (raw_start r) (PInt 0),
                 seg_end = dict_get (raw_end r) (PInt 0),
                 english = strip (dict_get (raw_text r) []), japanese = j\<rparr>"
    obtain out w' where o: "segments_loop self rest (acc @ [?seg]) w1 = (Inr ((acc @ [?seg]) @ out), w')"
      and m: "map (\<lambda>s. (seg_start s, seg_end s, english s)) out =
     map (\<lambda>r. (dict_get (raw_start r) (PInt 0), dict_get (raw_end r) (PInt 0),
                strip (dict_get (raw_text r) [])))
       (filter (\<lambda>r. strip (dict_get (raw_text r) []) \<noteq> []) rest)"
      using Cons.IH [of "acc @ [?seg]" w1] by blast
    have "segments_loop self (r # rest) acc w = (Inr (acc @ (?seg # out)), w')"
      using False j o by (simp add: Let_def)
    moreover have "map (\<lambda>s. (seg_start s, seg_end s, english s)) (?seg # out) =
     map (\<lambda>r. (dict_get (raw_start r) (PInt 0), dict_get (raw_end r) (PInt 0),
                strip (dict_get (raw_text r) [])))
       (filter (\<lambda>r. strip (dict_get (raw_text r) []) \<noteq> []) (r # rest))"
      using False m by simp
    ultimately show ?thesis by blast
  qed
qed


lemma create_nonempty:
  assumes "res_segments tr = Some segs" and "segs \<noteq> []"
  shows "create_subtitle_segments self (Inr tr) w =
     (case segments_loop self segs [] w of
        (Inl e, w') \<Rightarrow> (Inl e, w')
      | (Inr out, w') \<Rightarrow> (Inr (Inr out), w'))"
  using assms by (simp add: create_subtitle_segments_def dict_get_def)

lemmas demo_defs = demo_result_def demo_self_def demo_world_def demo_client_def

lemmas eval_simps = create_subtitle_segments_def translate_to_japanese_def translate_try_def
  call_chat_def translation_request_def dict_get_def strip_def isspace_def ascii_def Let_def



lemma translate_to_japanese_sent:
  assumes "translate_to_japanese self t ctx w = (r, w')"
  shows "sent w' = (case client self of None \<Rightarrow> sent w
                    | Some c \<Rightarrow> sent w @ [ChatCall (translation_request t ctx)])"
  using assms
  by (auto simp: translate_to_japanese_def translate_try_def call_chat_def
           split: option.splits prod.splits sum.splits list.splits)

lemma translate_to_japanese_failure:
  assumes "client self = Some c" and "fst (translate_try c t ctx w) = Inl e"
  shows "fst (translate_to_japanese self t ctx w) = Inr (LABEL_TRANSLATE_ERROR @ exn_str e)"
  using assms by (auto simp: translate_to_japanese_def split: prod.splits sum.splits)

lemma create_fallback:
  assumes "dict_get (res_segments tr) [] = []"
    and "translate_to_japanese self (dict_get (res_text tr) []) (ascii ''subtitle'') w = (Inr j, w')"
  shows "create_subtitle_segments self (Inr tr) w =
     (Inr (Inr [\<lparr>seg_start = PInt 0, seg_end = dict_get (res_duration tr) (PInt 0),
                  english = dict_get (res_text tr) [], japanese = j\<rparr>]), w')"
  using assms by (simp add: create_subtitle_segments_def)

lemma segments_loop_middle:
  assumes "strip (dict_get (raw_text r) []) \<noteq> []"
    and "segments_loop self pre [] w = (Inr a, w1)"
    and "translate_to_japanese self (strip (dict_get (raw_text r) [])) (ascii ''subtitle'') w1
           = (Inr j, w2)"
  shows "\<exists>b w3.
     segments_loop self (pre @ r # post) [] w =
       (Inr (a @ \<lparr>seg_start = dict_get (raw_start r) (PInt 0),
                  seg_end = dict_get (raw_end r) (PInt 0),
                  english = strip (dict_get (raw_text r) []), japanese = j\<rparr> # b), w3) \<and>
     map (\<lambda>s. (seg_start s, seg_end s, english s)) b =
     map (\<lambda>r. (dict_get (raw_start r) (PInt 0), dict_get (raw_end r) (PInt 0),
                strip (dict_get (raw_text r) [])))
       (filter (\<lambda>r. strip (dict_get (raw_text r) []) \<noteq> []) post)"
proof -
  let ?seg = "\<lparr>seg_start = dict_get (raw_start r) (PInt 0),
               seg_end = dict_get (raw_end r) (PInt 0),
               english = strip (dict_get (raw_text r) []), japanese = j\<rparr>"
  obtain b w3 where b: "segments_loop self post (a @ [?seg]) w2 = (Inr ((a @ [?seg]) @ b), w3)"
    and m: "map (\<lambda>s. (seg_start s, seg_end s, english s)) b =
     map (\<lambda>r. (dict_get (raw_start r) (PInt 0), dict_get (raw_end r) (PInt 0),
                strip (dict_get (raw_text r) [])))
       (filter (\<lambda>r. strip (dict_get (raw_text r) []) \<noteq> []) post)"
    using segments_loop_shape [of self post "a @ [?seg]" w2] by blast
  have "segments_loop self (pre @ r # post) [] w = segments_loop self (r # post) a w1"
    using assms(2) by (simp add: segments_loop_append)
  also have "\<dots> = segments_loop self post (a @ [?seg]) w2"
    using assms(1,3) by (simp add: Let_def)
  finally show ?thesis
    using b m by auto
qed

lemmas demo_seg_defs = again_segment_def hi_segment_def bye_segment_def segments_result_def

section \<open>Properties of validation, transcription and processing\<close>

lemma validate_wav_file_True:
  assumes "fst (validate_wav_file fs p)"
  shows "\<exists>wav sz. wave_open fs p = Inr wav \<and> framerate wav \<noteq> 0 \<and>
           getsize fs p = Inr sz \<and> sz \<le> 25 * 1024 * 1024"
  using assms
  by (auto simp: validate_wav_file_def validate_try_def split: sum.splits if_splits)

lemma result_of_transcript_cases:
  "(\<exists>e. result_of_transcript t = Inl e) \<or> (\<exists>r. result_of_transcript t = Inr r)"
  by (cases "result_of_transcript t") auto

lemma transcribe_returns:
  "\<exists>r w'. transcribe_english_with_timestamps self fs p w = (Inr r, w')"
  by (auto simp: transcribe_english_with_timestamps_def split: option.splits prod.splits sum.splits)

lemma transcribe_invalid:
  assumes "\<not> fst (validate_wav_file fs p)"
  shows "\<exists>m. transcribe_english_with_timestamps self fs p w = (Inr (Inl m), w)"
  using assms
  by (auto simp: transcribe_english_with_timestamps_def split: option.splits prod.splits)

lemma transcribe_no_client:
  assumes "client self = None"
  shows "transcribe_english_with_timestamps self fs p w = (Inr (Inl MSG_NO_API_KEY), w)"
  using assms by (simp add: transcribe_english_with_timestamps_def)

lemmas adapter_eval = transcribe_english_with_timestamps_def transcribe_try_def
  call_transcribe_def transcription_request_def seek_def validate_wav_file_def validate_try_def
  result_of_transcript_def process_wav_file_def process_try_def report_def endswith_wav_def

lemmas demo_adapter_defs = demo_transcript_def demo_fs_def

lemma process_unchanged:
  assumes "\<not> endswith_wav p \<or> \<not> fst (validate_wav_file fs p)"
  shows "snd (process_wav_file self fs p cb w) = w \<and>
         (\<exists>m. fst (process_wav_file self fs p cb w) = Inr (Inl m))"
proof (cases "endswith_wav p")
  case False
  then show ?thesis
    by (auto simp: process_wav_file_def process_try_def split: option.splits)
next
  case True
  then have "\<not> fst (validate_wav_file fs p)"
    using assms by simp
  then obtain m where "transcribe_english_with_timestamps self fs p w = (Inr (Inl m), w)"
    using transcribe_invalid by blast
  then show ?thesis
    using True by (auto simp: process_wav_file_def process_try_def split: option.splits)
qed

section \<open>Properties of the formatters and of the renderer\<close>






























subsection \<open>C1: one subtitle segment per raw segment with non-blank text\<close>

text \<open>
  Claim C1.  When the \<^verbatim>\<open>segments\<close> list of the transcription result is not empty,
  \<open>create_subtitle_segments\<close> returns a list (never an error) that has exactly one
  subtitle segment for each raw segment whose stripped text is not empty, in the order of
  the raw segments and with their \<^verbatim>\<open>start\<close> and \<^verbatim>\<open>end\<close> values; raw segments whose text is
  empty or only whitespace contribute nothing.  For the three raw segments
  \<open>{0, 2, "Hi"}\<close>, \<open>{2, 4, "  "}\<close>, \<open>{4, 6, "Bye"}\<close> the result has exactly two segments.
  This holds for every client and every behaviour of the remote service.
\<close>

theorem segments_one_per_nonblank:
  assumes "res_segments tr = Some segs" and "segs \<noteq> []"
  shows "\<exists>out w'. create_subtitle_segments self (Inr tr) w = (Inr (Inr out), w') \<and>
     map (\<lambda>s. (seg_start s, seg_end s, english s)) out =
     map (\<lambda>r. (dict_get (raw_start r) (PInt 0), dict_get (raw_end r) (PInt 0),
                strip (dict_get (raw_text r) [])))
       (filter (\<lambda>r. strip (dict_get (raw_text r) []) \<noteq> []) segs) \<and>
     (segs = [\<lparr>raw_start = Some (PInt 0), raw_end = Some (PInt 2), raw_text = Some (ascii ''Hi'')\<rparr>,
              \<lparr>raw_start = Some (PInt 2), raw_end = Some (PInt 4), raw_text = Some (ascii ''  '')\<rparr>,
              \<lparr>raw_start = Some (PInt 4), raw_end = Some (PInt 6), raw_text = Some (ascii ''Bye'')\<rparr>]
      \<longrightarrow> length out = 2 \<and>
          map (\<lambda>s. (seg_start s, seg_end s, english s)) out =
            [(PInt 0, PInt 2, ascii ''Hi''), (PInt 4, PInt 6, ascii ''Bye'')])"
proof -
  obtain out w' where l: "segments_loop self segs [] w = (Inr ([] @ out), w')"
    and m: "map (\<lambda>s. (seg_start s, seg_end s, english s)) out =
     map (\<lambda>r. (dict_get (raw_start r) (PInt 0), dict_get (raw_end r) (PInt 0),
                strip (dict_get (raw_text r) [])))
       (filter (\<lambda>r. strip (dict_get (raw_text r) []) \<noteq> []) segs)"
    using segments_loop_shape [of self segs "[]" w] by blast
  have c: "create_subtitle_segments self (Inr tr) w = (Inr (Inr out), w')"
    using l create_nonempty [OF assms, of self w] by simp
  have "length out = 2 \<and> map (\<lambda>s. (seg_start s, seg_end s, english s)) out =
            [(PInt 0, PInt 2, ascii ''Hi''), (PInt 4, PInt 6, ascii ''Bye'')]"
    if "segs = [\<lparr>raw_start = Some (PInt 0), raw_end = Some (PInt 2), raw_text = Some (ascii ''Hi'')\<rparr>,
              \<lparr>raw_start = Some (PInt 2), raw_end = Some (PInt 4), raw_text = Some (ascii ''  '')\<rparr>,
              \<lparr>raw_start = Some (PInt 4), raw_end = Some (PInt 6), raw_text = Some (ascii ''Bye'')\<rparr>]"
  proof -
    have e: "map (\<lambda>s. (seg_start s, seg_end s, english s)) out =
            [(PInt 0, PInt 2, ascii ''Hi''), (PInt 4, PInt 6, ascii ''Bye'')]"
      using m unfolding that by (simp add: dict_get_def strip_def isspace_def ascii_def)
    have "length out = length (map (\<lambda>s. (seg_start s, seg_end s, english s)) out)"
      by simp
    also have "\<dots> = 2"
      unfolding e by simp
    finally show ?thesis
      using e by simp
  qed
  then show ?thesis
    using c m by (intro exI [of _ out] exI [of _ w']) simp
qed

theorem segments_one_per_nonblank_witness:
  "res_segments demo_result = Some (the (res_segments demo_result)) \<and>
   the (res_segments demo_result) \<noteq> [] \<and>
   (\<exists>out w'. create_subtitle_segments demo_self (Inr demo_result) demo_world
        = (Inr (Inr out), w') \<and>
      map (\<lambda>s. (seg_start s, seg_end s, english s)) out =
        [(PInt 0, PInt 2, ascii ''Hi''), (PInt 4, PInt 6, ascii ''Bye'')])"
proof -
  have h1: "res_segments demo_result = Some (the (res_segments demo_result))"
    and h2: "the (res_segments demo_result) \<noteq> []"
    by (simp_all add: demo_result_def)
  from segments_one_per_nonblank [OF h1 h2, of demo_self demo_world]
  obtain out w' where
    c: "create_subtitle_segments demo_self (Inr demo_result) demo_world = (Inr (Inr out), w')"
    and m: "map (\<lambda>s. (seg_start s, seg_end s, english s)) out =
       map (\<lambda>r. (dict_get (raw_start r) (PInt 0), dict_get (raw_end r) (PInt 0),
                strip (dict_get (raw_text r) [])))
         (filter (\<lambda>r. strip (dict_get (raw_text r) []) \<noteq> []) (the (res_segments demo_result)))"
    by blast
  have "map (\<lambda>s. (seg_start s, seg_end s, english s)) out =
        [(PInt 0, PInt 2, ascii ''Hi''), (PInt 4, PInt 6, ascii ''Bye'')]"
    unfolding m by (simp add: demo_result_def dict_get_def strip_def isspace_def ascii_def)
  then have "\<exists>out w'. create_subtitle_segments demo_self (Inr demo_result) demo_world
        = (Inr (Inr out), w') \<and>
      map (\<lambda>s. (seg_start s, seg_end s, english s)) out =
        [(PInt 0, PInt 2, ascii ''Hi''), (PInt 4, PInt 6, ascii ''Bye'')]"
    using c by (intro exI [of _ out] exI [of _ w'] conjI)
  then show ?thesis
    using h1 h2 by simp
qed

subsection \<open>C10: the per-segment path stores and translates the stripped text\<close>

text \<open>
  Claim C10.  For a raw segment \<open>r\<close> with non-blank text, at any position of the list, the
  emitted segment has the stripped text as its English field, \<open>translate_to_japanese\<close> is
  called on the stripped text (with a client, the chat request sent carries the stripped
  text as the user message), and a missing \<^verbatim>\<open>start\<close> or \<^verbatim>\<open>end\<close> entry becomes \<open>0\<close>.
\<close>

theorem per_segment_trimmed:
  assumes "res_segments tr = Some (pre @ r # post)"
    and "strip (dict_get (raw_text r) []) \<noteq> []"
    and "segments_loop self pre [] w = (Inr a, w1)"
  shows "\<exists>j w2 b w3.
     translate_to_japanese self (strip (dict_get (raw_text r) [])) (ascii ''subtitle'') w1
       = (Inr j, w2) \<and>
     sent w2 = (case client self of None \<Rightarrow> sent w1
                | Some c \<Rightarrow> sent w1 @ [ChatCall (translation_request
                     (strip (dict_get (raw_text r) [])) (ascii ''subtitle''))]) \<and>
     create_subtitle_segments self (Inr tr) w =
       (Inr (Inr (a @ \<lparr>seg_start = (case raw_start r of None \<Rightarrow> PInt 0 | Some v \<Rightarrow> v),
                       seg_end = (case raw_end r of None \<Rightarrow> PInt 0 | Some v \<Rightarrow> v),
                       english = strip (dict_get (raw_text r) []), japanese = j\<rparr> # b)), w3)"
proof -
  obtain j w2 where j: "translate_to_japanese self (strip (dict_get (raw_text r) []))
      (ascii ''subtitle'') w1 = (Inr j, w2)"
    using translate_to_japanese_returns by blast
  obtain b w3 where "segments_loop self (pre @ r # post) [] w =
       (Inr (a @ \<lparr>seg_start = dict_get (raw_start r) (PInt 0),
                  seg_end = dict_get (raw_end r) (PInt 0),
                  english = strip (dict_get (raw_text r) []), japanese = j\<rparr> # b), w3)"
    using segments_loop_middle [OF assms(2,3) j] by blast
  then have "create_subtitle_segments self (Inr tr) w =
       (Inr (Inr (a @ \<lparr>seg_start = (case raw_start r of None \<Rightarrow> PInt 0 | Some v \<Rightarrow> v),
                       seg_end = (case raw_end r of None \<Rightarrow> PInt 0 | Some v \<Rightarrow> v),
                       english = strip (dict_get (raw_text r) []), japanese = j\<rparr> # b)), w3)"
    using create_nonempty [OF assms(1), of self w] by (simp add: dict_get_def)
  then show ?thesis
    using j translate_to_japanese_sent [OF j] by blast
qed

theorem per_segment_trimmed_witness:
  "res_segments (segments_result [hi_segment, again_segment]) = Some ([hi_segment] @ again_segment # []) \<and>
   strip (dict_get (raw_text again_segment) []) \<noteq> [] \<and>
   segments_loop demo_self [hi_segment] [] demo_world =
     (Inr [\<lparr>seg_start = PInt 0, seg_end = PInt 2, english = ascii ''Hi'', japanese = ascii ''ja''\<rparr>],
      \<lparr>net = 1, sent = [ChatCall (translation_request (ascii ''Hi'') (ascii ''subtitle''))]\<rparr>) \<and>
   (\<exists>j b w3. create_subtitle_segments demo_self
        (Inr (segments_result [hi_segment, again_segment])) demo_world =
      (Inr (Inr ([\<lparr>seg_start = PInt 0, seg_end = PInt 2, english = ascii ''Hi'',
                    japanese = ascii ''ja''\<rparr>] @
                 \<lparr>seg_start = PInt 0, seg_end = PFloat (7 / 2), english = ascii ''Again'',
                   japanese = j\<rparr> # b)), w3))"
proof -
  have h1: "res_segments (segments_result [hi_segment, again_segment])
      = Some ([hi_segment] @ again_segment # [])"
    by (simp add: segments_result_def)
  have h2: "strip (dict_get (raw_text again_segment) []) \<noteq> []"
    by (simp add: demo_seg_defs dict_get_def strip_def isspace_def ascii_def)
  have h3: "segments_loop demo_self [hi_segment] [] demo_world =
     (Inr [\<lparr>seg_start = PInt 0, seg_end = PInt 2, english = ascii ''Hi'', japanese = ascii ''ja''\<rparr>],
      \<lparr>net = 1, sent = [ChatCall (translation_request (ascii ''Hi'') (ascii ''subtitle''))]\<rparr>)"
    by (simp add: demo_defs demo_seg_defs eval_simps)
  have e: "strip (dict_get (raw_text again_segment) []) = ascii ''Again''"
    by (simp add: demo_seg_defs dict_get_def strip_def isspace_def ascii_def)
  have s: "raw_start again_segment = None" "raw_end again_segment = Some (PFloat (7 / 2))"
    by (simp_all add: again_segment_def)
  show ?thesis
    using h1 h2 h3 per_segment_trimmed [OF h1 h2 h3]
    unfolding e s by auto
qed

subsection \<open>C2: the whole-clip segment when there are no raw segments\<close>

text \<open>
  Claim C2.  When the \<^verbatim>\<open>segments\<close> list is empty, \<open>create_subtitle_segments\<close> returns a list
  of exactly one segment: it starts at \<open>0\<close>, ends at \<^verbatim>\<open>duration\<close>, its English text is the
  \<^verbatim>\<open>text\<close> field, and its Japanese text is the result of one call of
  \<open>translate_to_japanese\<close> on that text (with a client, exactly one chat request is
  sent).  With duration \<open>12.5\<close> and text \<open>"Hello"\<close> the one segment has start \<open>0\<close>, end
  \<open>12.5\<close> and English text \<open>"Hello"\<close>.
\<close>

theorem fallback_single_segment:
  assumes "dict_get (res_segments tr) [] = []"
  shows "\<exists>j w'.
     translate_to_japanese self (dict_get (res_text tr) []) (ascii ''subtitle'') w = (Inr j, w') \<and>
     create_subtitle_segments self (Inr tr) w =
       (Inr (Inr [\<lparr>seg_start = PInt 0, seg_end = dict_get (res_duration tr) (PInt 0),
                    english = dict_get (res_text tr) [], japanese = j\<rparr>]), w') \<and>
     sent w' = (case client self of None \<Rightarrow> sent w
                | Some c \<Rightarrow> sent w @ [ChatCall (translation_request (dict_get (res_text tr) [])
                                          (ascii ''subtitle''))]) \<and>
     (res_duration tr = Some (PFloat (25 / 2)) \<and> res_text tr = Some (ascii ''Hello'') \<longrightarrow>
        create_subtitle_segments self (Inr tr) w =
          (Inr (Inr [\<lparr>seg_start = PInt 0, seg_end = PFloat (25 / 2),
                       english = ascii ''Hello'', japanese = j\<rparr>]), w'))"
proof -
  obtain j w' where j: "translate_to_japanese self (dict_get (res_text tr) [])
      (ascii ''subtitle'') w = (Inr j, w')"
    using translate_to_japanese_returns by blast
  note c = create_fallback [OF assms j]
  have "res_duration tr = Some (PFloat (25 / 2)) \<and> res_text tr = Some (ascii ''Hello'') \<longrightarrow>
        create_subtitle_segments self (Inr tr) w =
          (Inr (Inr [\<lparr>seg_start = PInt 0, seg_end = PFloat (25 / 2),
                       english = ascii ''Hello'', japanese = j\<rparr>]), w')"
    using c by (auto simp: dict_get_def)
  then show ?thesis
    using j c translate_to_japanese_sent [OF j] by blast
qed

theorem fallback_single_segment_witness:
  "dict_get (res_segments hello_result) [] = [] \<and>
   create_subtitle_segments demo_self (Inr hello_result) demo_world =
     (Inr (Inr [\<lparr>seg_start = PInt 0, seg_end = PFloat (25 / 2), english = ascii ''Hello'',
                  japanese = ascii ''ja''\<rparr>]),
      \<lparr>net = 1, sent = [ChatCall (translation_request (ascii ''Hello'') (ascii ''subtitle''))]\<rparr>)"
proof -
  have h: "dict_get (res_segments hello_result) [] = []"
    by (simp add: hello_result_def dict_get_def)
  from fallback_single_segment [OF h, of demo_self demo_world]
  obtain j w' where
    "translate_to_japanese demo_self (dict_get (res_text hello_result) []) (ascii ''subtitle'')
       demo_world = (Inr j, w')"
    and "create_subtitle_segments demo_self (Inr hello_result) demo_world =
       (Inr (Inr [\<lparr>seg_start = PInt 0, seg_end = dict_get (res_duration hello_result) (PInt 0),
                    english = dict_get (res_text hello_result) [], japanese = j\<rparr>]), w')"
    by blast
  moreover have "translate_to_japanese demo_self (dict_get (res_text hello_result) [])
       (ascii ''subtitle'') demo_world =
     (Inr (ascii ''ja''),
      \<lparr>net = 1, sent = [ChatCall (translation_request (ascii ''Hello'') (ascii ''subtitle''))]\<rparr>)"
    by (simp add: demo_defs hello_result_def eval_simps)
  ultimately show ?thesis
    using h by (simp add: hello_result_def dict_get_def)
qed

subsection \<open>C3: a failed translation does not stop the pipeline\<close>

text \<open>
  Claim C3.  If the translation of the segment \<open>r\<close> fails (the \<^verbatim>\<open>try\<close> block raises \<open>e\<close>:
  the remote call fails, or the response has no choice or no content), then the segment
  for \<open>r\<close> is still emitted, with the label followed by \<^verbatim>\<open>str(e)\<close> as its Japanese text,
  and every later raw segment with non-blank text still gets its segment.
  \<open>translate_to_japanese\<close> itself returns a string in every case and never raises.
\<close>

theorem translation_failure_not_terminal:
  assumes "client self = Some c"
    and "res_segments tr = Some (pre @ r # post)"
    and "strip (dict_get (raw_text r) []) \<noteq> []"
    and "segments_loop self pre [] w = (Inr a, w1)"
    and "fst (translate_try c (strip (dict_get (raw_text r) [])) (ascii ''subtitle'') w1) = Inl e"
  shows "(\<exists>b w3.
     create_subtitle_segments self (Inr tr) w =
       (Inr (Inr (a @ \<lparr>seg_start = dict_get (raw_start r) (PInt 0),
                       seg_end = dict_get (raw_end r) (PInt 0),
                       english = strip (dict_get (raw_text r) []),
                       japanese = LABEL_TRANSLATE_ERROR @ exn_str e\<rparr> # b)), w3) \<and>
     map (\<lambda>s. (seg_start s, seg_end s, english s)) b =
     map (\<lambda>r. (dict_get (raw_start r) (PInt 0), dict_get (raw_end r) (PInt 0),
                strip (dict_get (raw_text r) [])))
       (filter (\<lambda>r. strip (dict_get (raw_text r) []) \<noteq> []) post)) \<and>
    (\<forall>self' t ctx w'. \<exists>s w''. translate_to_japanese self' t ctx (w' :: 'n world) = (Inr s, w''))"
proof -
  obtain j w2 where j: "translate_to_japanese self (strip (dict_get (raw_text r) []))
      (ascii ''subtitle'') w1 = (Inr j, w2)"
    using translate_to_japanese_returns by blast
  have "j = LABEL_TRANSLATE_ERROR @ exn_str e"
    using translate_to_japanese_failure [OF assms(1,5)] j by simp
  then have ?thesis if "\<forall>self' t ctx w'. \<exists>s w''.
      translate_to_japanese self' t ctx (w' :: 'n world) = (Inr s, w'')"
    using that segments_loop_middle [OF assms(3,4) j, of post]
      create_nonempty [OF assms(2), of self w] by auto
  then show ?thesis
    using translate_to_japanese_returns by blast
qed


theorem translation_failure_not_terminal_witness:
  "client demo_self = Some demo_client \<and>
   res_segments (segments_result [hi_segment, bye_segment, again_segment])
     = Some ([hi_segment] @ bye_segment # [again_segment]) \<and>
   strip (dict_get (raw_text bye_segment) []) \<noteq> [] \<and>
   segments_loop demo_self [hi_segment] [] demo_world =
     (Inr [\<lparr>seg_start = PInt 0, seg_end = PInt 2, english = ascii ''Hi'', japanese = ascii ''ja''\<rparr>],
      \<lparr>net = 1, sent = [ChatCall (translation_request (ascii ''Hi'') (ascii ''subtitle''))]\<rparr>) \<and>
   fst (translate_try demo_client (strip (dict_get (raw_text bye_segment) [])) (ascii ''subtitle'')
      \<lparr>net = 1, sent = [ChatCall (translation_request (ascii ''Hi'') (ascii ''subtitle''))]\<rparr>)
     = Inl (PyExn (ascii ''timeout'')) \<and>
   (\<exists>b w3. create_subtitle_segments demo_self
        (Inr (segments_result [hi_segment, bye_segment, again_segment])) demo_world =
      (Inr (Inr ([\<lparr>seg_start = PInt 0, seg_end = PInt 2, english = ascii ''Hi'',
                    japanese = ascii ''ja''\<rparr>] @
                 \<lparr>seg_start = PInt 4, seg_end = PInt 6, english = ascii ''Bye'',
                   japanese = LABEL_TRANSLATE_ERROR @ ascii ''timeout''\<rparr> # b)), w3) \<and>
      map english b = [ascii ''Again''])"
proof -
  have h1: "client demo_self = Some demo_client"
    by (simp add: demo_self_def)
  have h2: "res_segments (segments_result [hi_segment, bye_segment, again_segment])
     = Some ([hi_segment] @ bye_segment # [again_segment])"
    by (simp add: segments_result_def)
  have h3: "strip (dict_get (raw_text bye_segment) []) \<noteq> []"
    by (simp add: demo_seg_defs dict_get_def strip_def isspace_def ascii_def)
  have h4: "segments_loop demo_self [hi_segment] [] demo_world =
     (Inr [\<lparr>seg_start = PInt 0, seg_end = PInt 2, english = ascii ''Hi'', japanese = ascii ''ja''\<rparr>],
      \<lparr>net = 1, sent = [ChatCall (translation_request (ascii ''Hi'') (ascii ''subtitle''))]\<rparr>)"
    by (simp add: demo_defs demo_seg_defs eval_simps)
  have h5: "fst (translate_try demo_client (strip (dict_get (raw_text bye_segment) []))
      (ascii ''subtitle'')
      \<lparr>net = 1, sent = [ChatCall (translation_request (ascii ''Hi'') (ascii ''subtitle''))]\<rparr>)
     = Inl (PyExn (ascii ''timeout''))"
    by (simp add: demo_defs demo_seg_defs eval_simps)
  from translation_failure_not_terminal [OF h1 h2 h3 h4 h5]
  obtain b w3 where c: "create_subtitle_segments demo_self
        (Inr (segments_result [hi_segment, bye_segment, again_segment])) demo_world =
       (Inr (Inr ([\<lparr>seg_start = PInt 0, seg_end = PInt 2, english = ascii ''Hi'',
                    japanese = ascii ''ja''\<rparr>] @
                  \<lparr>seg_start = dict_get (raw_start bye_segment) (PInt 0),
                       seg_end = dict_get (raw_end bye_segment) (PInt 0),
                       english = strip (dict_get (raw_text bye_segment) []),
                       japanese = LABEL_TRANSLATE_ERROR @ exn_str (PyExn (ascii ''timeout''))\<rparr> # b)), w3)"
    and m: "map (\<lambda>s. (seg_start s, seg_end s, english s)) b =
     map (\<lambda>r. (dict_get (raw_start r) (PInt 0), dict_get (raw_end r) (PInt 0),
                strip (dict_get (raw_text r) [])))
       (filter (\<lambda>r. strip (dict_get (raw_text r) []) \<noteq> []) [again_segment])"
    by blast
  have "map english b = map (\<lambda>t. snd (snd t)) (map (\<lambda>s. (seg_start s, seg_end s, english s)) b)"
    by simp
  also have "\<dots> = [ascii ''Again'']"
    unfolding m by (simp add: demo_seg_defs dict_get_def strip_def isspace_def ascii_def)
  finally have "map english b = [ascii ''Again'']" .
  moreover have "dict_get (raw_start bye_segment) (PInt 0) = PInt 4"
    "dict_get (raw_end bye_segment) (PInt 0) = PInt 6"
    "strip (dict_get (raw_text bye_segment) []) = ascii ''Bye''"
    by (simp_all add: demo_seg_defs dict_get_def strip_def isspace_def ascii_def)
  ultimately show ?thesis
    using h1 h2 h3 h4 h5 c by auto
qed

subsection \<open>C4: the SRT timestamp format\<close>





subsection \<open>C5: one retry without the granularity parameter\<close>

text \<open>
  Claim C5.  With a client, a valid file and a successful \<^verbatim>\<open>open\<close>, the adapter first sends
  the request with \<^verbatim>\<open>timestamp_granularities=["segment"]\<close>.  If that call returns, no other
  request is sent.  If it raises, whatever the exception and wherever the call left the
  file, exactly one more request is sent, without the parameter and with the file at
  position \<open>0\<close>; an exception of that second call (or of reading the transcript) is
  returned as a string that starts with the transcription error label.  In every case, for
  every argument, the adapter returns and does not raise.
\<close>

theorem transcribe_retries_once:
  assumes "client self = Some c"
    and "fst (validate_wav_file fs audio_file)"
    and "open_rb fs audio_file = Inr sz"
    and "audio_transcriptions_create c (transcription_request 0 (Some [ascii ''segment'']))
           (net w) = ((r1, pos1), n1)"
    and "audio_transcriptions_create c (transcription_request 0 None) n1 = ((r2, pos2), n2)"
  shows "(\<forall>self' fs' p' (w' :: 'n world). \<exists>r w''.
            transcribe_english_with_timestamps self' fs' p' w' = (Inr r, w'')) \<and>
         (case r1 of
            Inr transcript \<Rightarrow>
              transcribe_english_with_timestamps self fs audio_file w =
                (case result_of_transcript transcript of
                   Inl e \<Rightarrow> Inr (Inl (LABEL_TRANSCRIBE_ERROR @ exn_str e))
                 | Inr result \<Rightarrow> Inr (Inr result),
                 w\<lparr>net := n1,
                   sent := sent w @
                     [TranscribeCall (transcription_request 0 (Some [ascii ''segment'']))]\<rparr>)
          | Inl new_api_error \<Rightarrow>
              transcribe_english_with_timestamps self fs audio_file w =
                (case r2 of
                   Inl e \<Rightarrow> Inr (Inl (LABEL_TRANSCRIBE_ERROR @ exn_str e))
                 | Inr transcript \<Rightarrow>
                     (case result_of_transcript transcript of
                        Inl e \<Rightarrow> Inr (Inl (LABEL_TRANSCRIBE_ERROR @ exn_str e))
                      | Inr result \<Rightarrow> Inr (Inr result)),
                 w\<lparr>net := n2,
                   sent := sent w @
                     [TranscribeCall (transcription_request 0 (Some [ascii ''segment''])),
                      TranscribeCall (transcription_request 0 None)]\<rparr>))"
proof -
  obtain msg where v: "validate_wav_file fs audio_file = (True, msg)"
    using assms(2) by (cases "validate_wav_file fs audio_file") auto
  have "case r1 of
            Inr transcript \<Rightarrow>
              transcribe_english_with_timestamps self fs audio_file w =
                (case result_of_transcript transcript of
                   Inl e \<Rightarrow> Inr (Inl (LABEL_TRANSCRIBE_ERROR @ exn_str e))
                 | Inr result \<Rightarrow> Inr (Inr result),
                 w\<lparr>net := n1,
                   sent := sent w @
                     [TranscribeCall (transcription_request 0 (Some [ascii ''segment'']))]\<rparr>)
          | Inl new_api_error \<Rightarrow>
              transcribe_english_with_timestamps self fs audio_file w =
                (case r2 of
                   Inl e \<Rightarrow> Inr (Inl (LABEL_TRANSCRIBE_ERROR @ exn_str e))
                 | Inr transcript \<Rightarrow>
                     (case result_of_transcript transcript of
                        Inl e \<Rightarrow> Inr (Inl (LABEL_TRANSCRIBE_ERROR @ exn_str e))
                      | Inr result \<Rightarrow> Inr (Inr result)),
                 w\<lparr>net := n2,
                   sent := sent w @
                     [TranscribeCall (transcription_request 0 (Some [ascii ''segment''])),
                      TranscribeCall (transcription_request 0 None)]\<rparr>)"
    using assms(1,3,4,5) v
    by (auto simp: transcribe_english_with_timestamps_def transcribe_try_def call_transcribe_def
          seek_def split: sum.splits)
  then show ?thesis
    using transcribe_returns by blast
qed


theorem transcribe_retries_once_witness:
  "client demo_self = Some demo_client \<and>
   fst (validate_wav_file demo_fs (ascii ''talk.wav'')) \<and>
   open_rb demo_fs (ascii ''talk.wav'') = Inr 192044 \<and>
   audio_transcriptions_create demo_client (transcription_request 0 (Some [ascii ''segment'']))
     (net demo_world) = ((Inl (PyExn (ascii ''unexpected keyword'')), 44), 1) \<and>
   audio_transcriptions_create demo_client (transcription_request 0 None) 1
     = ((Inr demo_transcript, 44), 2) \<and>
   transcribe_english_with_timestamps demo_self demo_fs (ascii ''talk.wav'') demo_world =
     (Inr (Inr \<lparr>res_text = Some (ascii ''Hi Bye''), res_language = Some (ascii ''english''),
                 res_duration = Some (PFloat 6), res_segments = Some []\<rparr>),
      \<lparr>net = 2,
        sent = [TranscribeCall (transcription_request 0 (Some [ascii ''segment''])),
                TranscribeCall (transcription_request 0 None)]\<rparr>)"
proof -
  have h1: "client demo_self = Some demo_client"
    by (simp add: demo_self_def)
  have h2: "fst (validate_wav_file demo_fs (ascii ''talk.wav''))"
    by (simp add: demo_fs_def validate_wav_file_def validate_try_def)
  have h3: "open_rb demo_fs (ascii ''talk.wav'') = Inr 192044"
    by (simp add: demo_fs_def)
  have h4: "audio_transcriptions_create demo_client
      (transcription_request 0 (Some [ascii ''segment''])) (net demo_world)
      = ((Inl (PyExn (ascii ''unexpected keyword'')), 44), 1)"
    by (simp add: demo_client_def demo_world_def transcription_request_def)
  have h5: "audio_transcriptions_create demo_client (transcription_request 0 None) 1
      = ((Inr demo_transcript, 44), 2)"
    by (simp add: demo_client_def transcription_request_def)
  have r: "result_of_transcript demo_transcript =
      Inr \<lparr>res_text = Some (ascii ''Hi Bye''), res_language = Some (ascii ''english''),
                 res_duration = Some (PFloat 6), res_segments = Some []\<rparr>"
    by (simp add: result_of_transcript_def demo_transcript_def)
  have "transcribe_english_with_timestamps demo_self demo_fs (ascii ''talk.wav'') demo_world =
     (Inr (Inr \<lparr>res_text = Some (ascii ''Hi Bye''), res_language = Some (ascii ''english''),
                 res_duration = Some (PFloat 6), res_segments = Some []\<rparr>),
      \<lparr>net = 2,
        sent = [TranscribeCall (transcription_request 0 (Some [ascii ''segment''])),
                TranscribeCall (transcription_request 0 None)]\<rparr>)"
    using transcribe_retries_once [OF h1 h2 h3 h4 h5, THEN conjunct2]
    by (simp add: r demo_world_def)
  then show ?thesis
    using h1 h2 h3 h4 h5 by simp
qed

subsection \<open>C6: the SRT renderer numbers its blocks densely\<close>




subsection \<open>C7: the checks come before any remote request\<close>

text \<open>
  Claim C7.  For a path that does not end in \<^verbatim>\<open>.wav\<close> (in any letter case), such as
  \<^verbatim>\<open>talk.mp3\<close>, \<open>process_wav_file\<close> returns an error string and leaves the world as it was:
  no request is sent.  The string is the message that asks for a conversion to WAV
  (when a progress callback is given, provided its first call returns).  Whenever
  \<open>process_wav_file\<close> sends any request, the path ends in \<^verbatim>\<open>.wav\<close>, the file has opened as
  a WAV container and its size is at most 25 MiB.
\<close>

theorem checks_precede_remote_requests:
  "(\<not> endswith_wav p \<longrightarrow>
      snd (process_wav_file self fs p cb w) = w \<and>
      (\<exists>m. fst (process_wav_file self fs p cb w) = Inr (Inl m)) \<and>
      (report cb PROGRESS_CHECKING = None \<longrightarrow>
         fst (process_wav_file self fs p cb w) = Inr (Inl MSG_WAV_ONLY))) \<and>
   (sent (snd (process_wav_file self fs p cb w)) \<noteq> sent w \<longrightarrow>
      endswith_wav p \<and>
      (\<exists>wav sz. wave_open fs p = Inr wav \<and> getsize fs p = Inr sz \<and> sz \<le> 25 * 1024 * 1024))"
proof -
  have a: "fst (process_wav_file self fs p cb w) = Inr (Inl MSG_WAV_ONLY)"
    if "\<not> endswith_wav p" "report cb PROGRESS_CHECKING = None"
    using that by (simp add: process_wav_file_def process_try_def)
  have b: "endswith_wav p \<and> fst (validate_wav_file fs p)"
    if "sent (snd (process_wav_file self fs p cb w)) \<noteq> sent w"
    using that process_unchanged [of p fs self cb w] by metis
  show ?thesis
    using a b process_unchanged [of p fs self cb w] validate_wav_file_True [of fs p] by blast
qed

theorem checks_precede_remote_requests_witness:
  "\<not> endswith_wav (ascii ''talk.mp3'') \<and>
   report None PROGRESS_CHECKING = None \<and>
   process_wav_file demo_self demo_fs (ascii ''talk.mp3'') None demo_world
     = (Inr (Inl MSG_WAV_ONLY), demo_world) \<and>
   sent (snd (process_wav_file demo_self demo_fs (ascii ''talk.WAV'') None demo_world))
     \<noteq> sent demo_world \<and>
   endswith_wav (ascii ''talk.WAV'') \<and>
   (\<exists>wav sz. wave_open demo_fs (ascii ''talk.WAV'') = Inr wav \<and>
      getsize demo_fs (ascii ''talk.WAV'') = Inr sz \<and> sz \<le> 25 * 1024 * 1024)"
proof -
  have h1: "\<not> endswith_wav (ascii ''talk.mp3'')"
    by (simp add: endswith_wav_def ascii_def)
  have h2: "report None PROGRESS_CHECKING = None"
    by (simp add: report_def)
  have h3: "sent (snd (process_wav_file demo_self demo_fs (ascii ''talk.WAV'') None demo_world))
     \<noteq> sent demo_world"
    by (simp add: adapter_eval demo_defs demo_adapter_defs eval_simps)
  have "process_wav_file demo_self demo_fs (ascii ''talk.mp3'') None demo_world
     = (Inr (Inl MSG_WAV_ONLY), demo_world)"
    using checks_precede_remote_requests [of "ascii ''talk.mp3''" demo_self demo_fs None demo_world]
      h1 h2 by (simp add: prod_eq_iff)
  moreover have "endswith_wav (ascii ''talk.WAV'') \<and>
   (\<exists>wav sz. wave_open demo_fs (ascii ''talk.WAV'') = Inr wav \<and>
      getsize demo_fs (ascii ''talk.WAV'') = Inr sz \<and> sz \<le> 25 * 1024 * 1024)"
    using checks_precede_remote_requests [of "ascii ''talk.WAV''" demo_self demo_fs None demo_world]
      h3 by blast
  ultimately show ?thesis
    using h1 h2 h3 by blast
qed

subsection \<open>C8: the display format\<close>





subsection \<open>C9: the whole-clip segment is never dropped\<close>

text \<open>
  Claim C9.  In the path without raw segments the single segment is emitted whatever the
  transcript text is (empty or blank text included; the text is stored as it is, not
  stripped), and a missing \<^verbatim>\<open>text\<close> or \<^verbatim>\<open>duration\<close> entry is read as the empty string and as
  \<open>0\<close>: the segment may span \<open>[0, 0]\<close> with empty English text.
\<close>

theorem fallback_never_dropped:
  assumes "dict_get (res_segments tr) [] = []"
  shows "\<exists>seg w'. create_subtitle_segments self (Inr tr) w = (Inr (Inr [seg]), w') \<and>
     seg_start seg = PInt 0 \<and>
     seg_end seg = (case res_duration tr of None \<Rightarrow> PInt 0 | Some d \<Rightarrow> d) \<and>
     english seg = (case res_text tr of None \<Rightarrow> [] | Some t \<Rightarrow> t)"
proof -
  obtain j w' where j: "translate_to_japanese self (dict_get (res_text tr) [])
      (ascii ''subtitle'') w = (Inr j, w')"
    using translate_to_japanese_returns by blast
  show ?thesis
    using create_fallback [OF assms j] by (simp add: dict_get_def)
qed

theorem fallback_never_dropped_witness:
  "dict_get (res_segments blank_result) [] = [] \<and>
   (\<exists>seg w'. create_subtitle_segments demo_self (Inr blank_result) demo_world =
        (Inr (Inr [seg]), w') \<and>
      seg_start seg = PInt 0 \<and> seg_end seg = PInt 0 \<and> english seg = ascii ''  '')"
proof -
  have h: "dict_get (res_segments blank_result) [] = []"
    by (simp add: blank_result_def dict_get_def)
  show ?thesis
    using h fallback_never_dropped [OF h, of demo_self demo_world]
    by (simp add: blank_result_def)
qed

end
